theory Spec2Isabelle
  imports Complex_Main
begin

section \<open>Python values\<close>

text \<open>
  The request body of \<^verbatim>\<open>POST /predict\<close> is parsed JSON, and the records of the mock
  pipeline are typed \<^verbatim>\<open>Dict[str, Any]\<close>: a value is \<^verbatim>\<open>None\<close>, a \<^verbatim>\<open>bool\<close>, an \<^verbatim>\<open>int\<close>,
  a \<^verbatim>\<open>float\<close>, a \<^verbatim>\<open>str\<close>, a list or a dict with string keys. A dict is an association
  list in insertion order; a Python dict holds every key once.

  Python's \<^verbatim>\<open>int\<close> is unbounded: \<open>int\<close>. A \<^verbatim>\<open>float\<close> is an IEEE 754 double: a finite
  double is carried by its exact value (\<open>Finite 0\<close> is \<open>+0.0\<close>), beside it stand \<open>-0.0\<close>,
  the two infinities and NaN. An operation on floats gives the double nearest to the
  exact result, ties to even, and raises nothing but the division by zero; an \<^verbatim>\<open>int\<close>
  that is converted to a \<^verbatim>\<open>float\<close>, or divided by an \<^verbatim>\<open>int\<close>, raises \<^verbatim>\<open>OverflowError\<close>
  when the nearest double is not finite.
\<close>

datatype pyfloat = Finite rat | NegZero | PosInf | NegInf | NaN

datatype pyval =
    PNone
  | PBool bool
  | PInt int
  | PFloat pyfloat
  | PStr string
  | PList "pyval list"
  | PDict "(string \<times> pyval) list"

type_synonym pydict = "(string \<times> pyval) list"

text \<open>The numbers of Python arithmetic: the result of an operation is an int or a float.\<close>

datatype pynum = NInt int | NFloat pyfloat

text \<open>
  \<^verbatim>\<open>isinstance(v, (int, float))\<close>, together with the number that arithmetic on \<open>v\<close> uses.
  \<^verbatim>\<open>bool\<close> is a subclass of \<^verbatim>\<open>int\<close>: \<^verbatim>\<open>True\<close> and \<^verbatim>\<open>False\<close> pass the test and count
  as 1 and 0.
\<close>

fun as_number :: "pyval \<Rightarrow> pynum option" where
  "as_number (PBool b) = Some (NInt (if b then 1 else 0))"
| "as_number (PInt n) = Some (NInt n)"
| "as_number (PFloat x) = Some (NFloat x)"
| "as_number PNone = None"
| "as_number (PStr s) = None"
| "as_number (PList xs) = None"
| "as_number (PDict d) = None"

fun isinstance_dict :: "pyval \<Rightarrow> bool" where
  "isinstance_dict (PDict d) = True"
| "isinstance_dict v = False"

fun of_number :: "pynum \<Rightarrow> pyval" where
  "of_number (NInt n) = PInt n"
| "of_number (NFloat x) = PFloat x"

datatype pyerr = ZeroDivisionError | OverflowError string

subsection \<open>Rounding to a double\<close>

text \<open>The number of binary digits of a positive integer.\<close>

function bit_length :: "int \<Rightarrow> nat" where
  "bit_length n = (if n \<le> 0 then 0 else Suc (bit_length (n div 2)))"
  by pat_completeness auto
termination
  by (relation "measure nat") auto

declare bit_length.simps [simp del]

text \<open>For a positive rational \<open>a\<close>, the integer \<open>e\<close> with \<open>2 ^ e \<le> a < 2 ^ (e + 1)\<close>.\<close>

definition floor_log2 :: "rat \<Rightarrow> int" where
  "floor_log2 a =
     (if 1 \<le> a then int (bit_length \<lfloor>a\<rfloor>) - 1
      else - int (bit_length (\<lceil>1 / a\<rceil> - 1)))"

definition pow2 :: "int \<Rightarrow> rat" where
  "pow2 k = (if 0 \<le> k then of_int (2 ^ nat k) else 1 / of_int (2 ^ nat (- k)))"

definition round_half_even :: "rat \<Rightarrow> int" where
  "round_half_even x =
     (let f = \<lfloor>x\<rfloor>; r = x - of_int f
      in if r < 1 / 2 then f else if 1 / 2 < r then f + 1 else if even f then f else f + 1)"

text \<open>
  The multiple of the unit in the last place that is nearest to \<open>q\<close>, ties to even. A
  double has 53 binary digits, and its unit is never below \<open>2 ^ - 1074\<close> (the subnormal
  numbers).
\<close>

definition nearest_double :: "rat \<Rightarrow> rat" where
  "nearest_double q =
     (if q = 0 then 0
      else
        (let a = \<bar>q\<bar>;
             p = max (floor_log2 a) (- 1022) - 52;
             m = round_half_even (a / pow2 p)
         in sgn q * of_int m * pow2 p))"

text \<open>
  The float for the exact result \<open>q\<close> of an operation: an infinity from \<open>2 ^ 1024\<close> on,
  and a zero with the sign of \<open>q\<close> when \<open>q\<close> rounds to zero.
\<close>

definition round_double :: "rat \<Rightarrow> pyfloat" where
  "round_double q =
     (let r = nearest_double q
      in if of_int (2 ^ 1024) \<le> \<bar>r\<bar> then (if q < 0 then NegInf else PosInf)
         else if r = 0 then (if q < 0 then NegZero else Finite 0)
         else Finite r)"

subsection \<open>Arithmetic\<close>

text \<open>
  The integers from \<open>DBL_LIMIT\<close> on round to no finite double: the largest double is
  \<open>2 ^ 1024 - 2 ^ 971\<close>, and rounding to nearest, ties to even, takes every value from
  \<open>2 ^ 1024 - 2 ^ 970\<close> on beyond it.
\<close>

definition DBL_LIMIT :: int where
  "DBL_LIMIT = 2 ^ 1024 - 2 ^ 970"

text \<open>The conversion of an \<^verbatim>\<open>int\<close> operand of a float operation.\<close>

definition float_of_int :: "int \<Rightarrow> pyerr + pyfloat" where
  "float_of_int n =
     (if DBL_LIMIT \<le> \<bar>n\<bar> then Inl (OverflowError ''int too large to convert to float'')
      else Inr (round_double (of_int n)))"

text \<open>\<^verbatim>\<open>x * 10.0\<close> and \<^verbatim>\<open>x + y\<close> on floats.\<close>

fun float_mul10 :: "pyfloat \<Rightarrow> pyfloat" where
  "float_mul10 (Finite q) = round_double (q * 10)"
| "float_mul10 NegZero = NegZero"
| "float_mul10 PosInf = PosInf"
| "float_mul10 NegInf = NegInf"
| "float_mul10 NaN = NaN"

fun float_add :: "pyfloat \<Rightarrow> pyfloat \<Rightarrow> pyfloat" where
  "float_add NaN y = NaN"
| "float_add x NaN = NaN"
| "float_add PosInf NegInf = NaN"
| "float_add NegInf PosInf = NaN"
| "float_add PosInf y = PosInf"
| "float_add x PosInf = PosInf"
| "float_add NegInf y = NegInf"
| "float_add x NegInf = NegInf"
| "float_add NegZero y = y"
| "float_add x NegZero = x"
| "float_add (Finite x) (Finite y) = round_double (x + y)"

text \<open>\<^verbatim>\<open>x / y\<close> for a float \<open>x\<close> and a positive finite \<open>y\<close>.\<close>

fun float_div :: "pyfloat \<Rightarrow> rat \<Rightarrow> pyfloat" where
  "float_div (Finite q) y = round_double (q / y)"
| "float_div NegZero y = NegZero"
| "float_div PosInf y = PosInf"
| "float_div NegInf y = NegInf"
| "float_div NaN y = NaN"

text \<open>
  \<^verbatim>\<open>v * 10\<close>: an int stays an int; for a float the literal converts to \<open>10.0\<close>.
\<close>

fun num_mul10 :: "pynum \<Rightarrow> pynum" where
  "num_mul10 (NInt a) = NInt (a * 10)"
| "num_mul10 (NFloat x) = NFloat (float_mul10 x)"

text \<open>\<^verbatim>\<open>a + b\<close>: an int as long as both operands are ints; else the int operand converts.\<close>

fun num_add :: "pynum \<Rightarrow> pynum \<Rightarrow> pyerr + pynum" where
  "num_add (NInt a) (NInt b) = Inr (NInt (a + b))"
| "num_add (NInt a) (NFloat y) =
     (case float_of_int a of Inl e \<Rightarrow> Inl e | Inr x \<Rightarrow> Inr (NFloat (float_add x y)))"
| "num_add (NFloat x) (NInt b) =
     (case float_of_int b of Inl e \<Rightarrow> Inl e | Inr y \<Rightarrow> Inr (NFloat (float_add x y)))"
| "num_add (NFloat x) (NFloat y) = Inr (NFloat (float_add x y))"

text \<open>
  The builtin \<^verbatim>\<open>sum\<close>: from the int 0, left to right. A sum of ints is exact. On floats
  this is the sum as CPython up to 3.11 computes it; from 3.12 on the builtin compensates
  the rounding errors of its float addends, so that the last digits of a sum that holds
  floats depend on the interpreter. The theorems of the claims state no value of such a
  sum.
\<close>

fun sum_from :: "pynum \<Rightarrow> pynum list \<Rightarrow> pyerr + pynum" where
  "sum_from acc [] = Inr acc"
| "sum_from acc (n # ns) =
     (case num_add acc n of Inl e \<Rightarrow> Inl e | Inr acc' \<Rightarrow> sum_from acc' ns)"

definition py_sum :: "pynum list \<Rightarrow> pyerr + pynum" where
  "py_sum ns = sum_from (NInt 0) ns"

text \<open>
  \<^verbatim>\<open>a / len(xs)\<close>: true division by the length \<open>n\<close> of a list, a float. It raises
  \<^verbatim>\<open>ZeroDivisionError\<close> when \<open>n\<close> is 0. The quotient of two ints is the double nearest
  to it, and \<^verbatim>\<open>OverflowError\<close> when that is not finite. For a float \<open>a\<close> the length
  converts to a float (a list has fewer than \<open>2 ^ 63\<close> elements).
\<close>

fun truediv_len :: "pynum \<Rightarrow> nat \<Rightarrow> pyerr + pyfloat" where
  "truediv_len (NInt a) n =
     (if n = 0 then Inl ZeroDivisionError
      else if of_int DBL_LIMIT \<le> \<bar>of_int a / of_nat n :: rat\<bar>
      then Inl (OverflowError ''integer division result too large for a float'')
      else Inr (round_double (of_int a / of_nat n)))"
| "truediv_len (NFloat x) n =
     (if n = 0 then Inl ZeroDivisionError
      else Inr (float_div x (nearest_double (of_nat n))))"

text \<open>\<^verbatim>\<open>d[k] = v\<close>: an existing key keeps its place and takes the new value.\<close>

fun dict_setitem :: "pydict \<Rightarrow> string \<Rightarrow> pyval \<Rightarrow> pydict" where
  "dict_setitem [] k v = [(k, v)]"
| "dict_setitem ((k', v') # d) k v =
     (if k' = k then (k', v) # d else (k', v') # dict_setitem d k v)"

section \<open>The mock model and the mock preprocessor\<close>

text \<open>
  \<^verbatim>\<open>numeric_values = [v for v in item.values() if isinstance(v, (int, float))]\<close>
\<close>

definition numeric_values :: "pydict \<Rightarrow> pynum list" where
  "numeric_values item = List.map_filter as_number (map snd item)"

text \<open>
  The body of the loop of \<^verbatim>\<open>MockModel.predict\<close>: the score appended for one item. The
  \<^verbatim>\<open>print\<close> that opens each stage writes the data to the standard output and is left
  out, and with it CPython's limit on the digits of an int that is printed (4300 by
  default).
\<close>

definition predict_item :: "pyval \<Rightarrow> pyerr + pyfloat" where
  "predict_item item =
     (case item of
        PDict d \<Rightarrow>
          (if numeric_values d \<noteq> []
           then
             (case py_sum (numeric_values d) of
                Inl e \<Rightarrow> Inl e
              | Inr s \<Rightarrow> truediv_len s (length (numeric_values d)))
           else Inr (Finite (1 / 2)))
      | _ \<Rightarrow> Inr (Finite (1 / 2)))"

text \<open>\<^verbatim>\<open>MockModel.predict\<close>: the loop over \<open>data\<close>; an exception ends it.\<close>

fun MockModel_predict :: "pyval list \<Rightarrow> pyerr + pyfloat list" where
  "MockModel_predict [] = Inr []"
| "MockModel_predict (item # data) =
     (case predict_item item of
        Inl e \<Rightarrow> Inl e
      | Inr p \<Rightarrow>
          (case MockModel_predict data of
             Inl e \<Rightarrow> Inl e
           | Inr ps \<Rightarrow> Inr (p # ps)))"

text \<open>
  The dict comprehension of \<^verbatim>\<open>MockPreprocessor.preprocess\<close>,
  \<^verbatim>\<open>{f"processed_{k}": v * 10 if isinstance(v, (int, float)) else v for k, v in item.items()}\<close>:
  the pairs are stored one after the other into the dict built so far.
\<close>

definition processed_key :: "string \<Rightarrow> string" where
  "processed_key k = ''processed_'' @ k"

definition processed_value :: "pyval \<Rightarrow> pyval" where
  "processed_value v =
     (case as_number v of Some a \<Rightarrow> of_number (num_mul10 a) | None \<Rightarrow> v)"

fun dict_comprehension :: "pydict \<Rightarrow> pydict \<Rightarrow> pydict" where
  "dict_comprehension [] acc = acc"
| "dict_comprehension ((k, v) # items) acc =
     dict_comprehension items (dict_setitem acc (processed_key k) (processed_value v))"

definition preprocess_item :: "pyval \<Rightarrow> pyval" where
  "preprocess_item item =
     (case item of PDict d \<Rightarrow> PDict (dict_comprehension d []) | _ \<Rightarrow> item)"

fun MockPreprocessor_preprocess :: "pyval list \<Rightarrow> pyval list" where
  "MockPreprocessor_preprocess [] = []"
| "MockPreprocessor_preprocess (item # data) =
     preprocess_item item # MockPreprocessor_preprocess data"

section \<open>Configuration and responses\<close>

definition PROJECT_NAME :: string where
  "PROJECT_NAME = ''Portfolio Website with Blog''"

definition FAKE_ADMIN_TOKEN :: string where
  "FAKE_ADMIN_TOKEN = ''supersecretadmintoken''"

text \<open>
  How a request fails. An \<^verbatim>\<open>HTTPException\<close> carries its status code, its detail and its
  headers. FastAPI answers a request whose parameters it cannot fill with 422
  (\<^verbatim>\<open>RequestValidationError\<close>, here with the name of the parameter) and any other exception
  that leaves a handler or a dependency with 500.
\<close>

datatype failure =
    HTTPException nat string "(string \<times> string) list"
  | RequestValidationError string
  | UnhandledException string

fun status_code :: "failure \<Rightarrow> nat" where
  "status_code (HTTPException c d h) = c"
| "status_code (RequestValidationError p) = 422"
| "status_code (UnhandledException e) = 500"

fun response_headers :: "failure \<Rightarrow> (string \<times> string) list" where
  "response_headers (HTTPException c d h) = h"
| "response_headers (RequestValidationError p) = []"
| "response_headers (UnhandledException e) = []"

text \<open>The status of a response: 200 for a handler that returns.\<close>

definition response_status :: "failure + 'a \<Rightarrow> nat" where
  "response_status r = (case r of Inl e \<Rightarrow> status_code e | Inr x \<Rightarrow> 200)"

record PredictionOutput =
  predictions :: "pyfloat list"
  status :: string

record HealthCheckResponse =
  health_status :: string
  timestamp :: string
  service :: string

section \<open>Initialization of the AI models\<close>

datatype mock_model = MockModel
datatype mock_preprocessor = MockPreprocessor

text \<open>The module's globals \<^verbatim>\<open>AI_ENABLED\<close>, \<^verbatim>\<open>ml_model\<close> and \<^verbatim>\<open>preprocessor\<close>.\<close>

record globals =
  AI_ENABLED :: bool
  ml_model :: "mock_model option"
  preprocessor :: "mock_preprocessor option"

text \<open>
  What the \<^verbatim>\<open>try\<close> block of the initialization does: it runs through, or the load of the
  model raises, or the load of the preprocessor raises (the model is assigned by then).
\<close>

datatype init_outcome = Initialized | ModelRaised | PreprocessorRaised

text \<open>
  The module-level initialization, from the configured value of \<^verbatim>\<open>AI_ENABLED\<close>
  (\<^verbatim>\<open>True\<close> in the source). Both \<^verbatim>\<open>except\<close> clauses set \<^verbatim>\<open>AI_ENABLED = False\<close>.
\<close>

definition initialize :: "bool \<Rightarrow> init_outcome \<Rightarrow> globals" where
  "initialize configured outcome =
     (if configured then
        (case outcome of
           Initialized \<Rightarrow>
             \<lparr>AI_ENABLED = True, ml_model = Some MockModel, preprocessor = Some MockPreprocessor\<rparr>
         | ModelRaised \<Rightarrow>
             \<lparr>AI_ENABLED = False, ml_model = None, preprocessor = None\<rparr>
         | PreprocessorRaised \<Rightarrow>
             \<lparr>AI_ENABLED = False, ml_model = Some MockModel, preprocessor = None\<rparr>)
      else \<lparr>AI_ENABLED = False, ml_model = None, preprocessor = None\<rparr>)"

section \<open>The prediction route\<close>

fun str_of_error :: "pyerr \<Rightarrow> string" where
  "str_of_error ZeroDivisionError = ''division by zero''"
| "str_of_error (OverflowError message) = message"

text \<open>The handler \<^verbatim>\<open>predict\<close>, registered when \<^verbatim>\<open>AI_ENABLED\<close> holds after initialization.\<close>

definition predict :: "globals \<Rightarrow> pyval list \<Rightarrow> failure + PredictionOutput" where
  "predict g data =
     (if ml_model g = None \<or> preprocessor g = None
      then Inl (HTTPException 503 ''AI models are not loaded or available.'' [])
      else
        (case MockModel_predict (MockPreprocessor_preprocess data) of
           Inl e \<Rightarrow>
             Inl (HTTPException 500
                   (''An error occurred during AI prediction: '' @ str_of_error e) [])
         | Inr ps \<Rightarrow> Inr \<lparr>predictions = ps, status = ''success''\<rparr>))"

text \<open>The handler \<^verbatim>\<open>predict_disabled\<close>, registered otherwise; it takes no parameter.\<close>

definition predict_disabled :: "failure + PredictionOutput" where
  "predict_disabled = Inl (HTTPException 403 ''AI features are disabled for this service.'' [])"

text \<open>
  \<^verbatim>\<open>PredictionInput\<close>: the body is an object whose field \<^verbatim>\<open>data\<close> is a list of dicts.
\<close>

definition PredictionInput :: "pyval \<Rightarrow> pyval list option" where
  "PredictionInput body =
     (case body of
        PDict members \<Rightarrow>
          (case map_of members ''data'' of
             Some (PList items) \<Rightarrow> if list_all isinstance_dict items then Some items else None
           | _ \<Rightarrow> None)
      | _ \<Rightarrow> None)"

text \<open>
  \<^verbatim>\<open>POST /predict\<close>: the handler that the module registered, on the parsed JSON body,
  and what the handler returns or raises. The rendering of the returned object as the
  JSON of the response is the framework's.
\<close>

definition post_predict :: "globals \<Rightarrow> pyval \<Rightarrow> failure + PredictionOutput" where
  "post_predict g body =
     (if AI_ENABLED g then
        (case PredictionInput body of
           None \<Rightarrow> Inl (RequestValidationError ''body'')
         | Some data \<Rightarrow> predict g data)
      else predict_disabled)"

section \<open>The admin gate\<close>

record request =
  headers :: "(string \<times> string) list"
  query_params :: "(string \<times> string) list"

text \<open>
  \<^verbatim>\<open>authenticate_admin\<close>, on the value of its parameter \<^verbatim>\<open>token\<close>: \<^verbatim>\<open>None\<close> and the
  empty string are falsy.
\<close>

definition unauthorized :: failure where
  "unauthorized =
     HTTPException 401 ''Authentication failed: Invalid or missing admin token''
       [(''WWW-Authenticate'', ''Bearer'')]"

fun authenticate_admin :: "string option \<Rightarrow> failure + bool" where
  "authenticate_admin None = Inl unauthorized"
| "authenticate_admin (Some token) =
     (if token = [] then Inl unauthorized
      else if token = FAKE_ADMIN_TOKEN then Inr True
      else Inl unauthorized)"

text \<open>
  The parameter \<^verbatim>\<open>token\<close> is declared as
  \<^verbatim>\<open>Depends(lambda x: x.headers.get("X-Admin-Token"))\<close>. The lambda reads the header of
  a request; a \<^verbatim>\<open>str\<close> has no attribute \<^verbatim>\<open>headers\<close>, and the \<^verbatim>\<open>AttributeError\<close> leaves
  the dependency.
\<close>

datatype lambda_argument = ARequest request | AStr string

text \<open>
  \<^verbatim>\<open>headers.get\<close> looks a header up by its name without regard to the case of the
  letters, and gives the first value.
\<close>

definition ascii_lower :: "char \<Rightarrow> char" where
  "ascii_lower c =
     (case map_of (zip ''ABCDEFGHIJKLMNOPQRSTUVWXYZ'' ''abcdefghijklmnopqrstuvwxyz'') c of
        Some l \<Rightarrow> l
      | None \<Rightarrow> c)"

definition headers_get :: "(string \<times> string) list \<Rightarrow> string \<Rightarrow> string option" where
  "headers_get hs name =
     map_of (map (\<lambda>h. (map ascii_lower (fst h), snd h)) hs) (map ascii_lower name)"

fun token_lambda :: "lambda_argument \<Rightarrow> failure + string option" where
  "token_lambda (ARequest r) = Inr (headers_get (headers r) ''X-Admin-Token'')"
| "token_lambda (AStr s) = Inl (UnhandledException ''AttributeError'')"

text \<open>
  FastAPI fills the parameter of a dependency by its declaration: a parameter annotated
  \<^verbatim>\<open>Request\<close> receives the request; a parameter with no annotation and no default is a
  required query parameter of that name, and a request without it is answered 422
  before any dependency runs.
\<close>

datatype annotation = NoAnnotation | RequestAnnotation

fun solve_parameter :: "annotation \<Rightarrow> string \<Rightarrow> request \<Rightarrow> failure + lambda_argument" where
  "solve_parameter RequestAnnotation name req = Inr (ARequest req)"
| "solve_parameter NoAnnotation name req =
     (case map_of (query_params req) name of
        None \<Rightarrow> Inl (RequestValidationError name)
      | Some s \<Rightarrow> Inr (AStr s))"

text \<open>
  \<^verbatim>\<open>Depends(authenticate_admin)\<close> for a lambda whose parameter \<open>x\<close> is declared with
  annotation \<open>a\<close>: the parameter is filled, the lambda gives the token, and
  \<^verbatim>\<open>authenticate_admin\<close> checks it.
\<close>

definition depends_authenticate_admin :: "annotation \<Rightarrow> request \<Rightarrow> failure + bool" where
  "depends_authenticate_admin a req =
     (case solve_parameter a ''x'' req of
        Inl e \<Rightarrow> Inl e
      | Inr x \<Rightarrow>
          (case token_lambda x of
             Inl e \<Rightarrow> Inl e
           | Inr token \<Rightarrow> authenticate_admin token))"

definition admin_dashboard :: pydict where
  "admin_dashboard =
     [(''message'', PStr ''Welcome to the Admin Dashboard!''),
      (''page'', PStr ''Admin Dashboard''),
      (''status'', PStr ''authenticated'')]"

text \<open>
  \<^verbatim>\<open>GET /admin/dashboard\<close>, with \<^verbatim>\<open>dependencies=[Depends(authenticate_admin)]\<close>: the
  handler runs once the dependency has returned. The source's lambda declares \<open>x\<close>
  with no annotation.
\<close>

definition gated :: "annotation \<Rightarrow> request \<Rightarrow> 'a \<Rightarrow> failure + 'a" where
  "gated a req handler =
     (case depends_authenticate_admin a req of Inl e \<Rightarrow> Inl e | Inr ok \<Rightarrow> Inr handler)"

definition get_admin_dashboard :: "request \<Rightarrow> failure + pydict" where
  "get_admin_dashboard req = gated NoAnnotation req admin_dashboard"

section \<open>The health check\<close>

text \<open>
  The reading of the clock, \<^verbatim>\<open>datetime.datetime.now(datetime.timezone.utc)\<close>: an aware
  datetime in UTC. A datetime keeps \<open>1 \<le> year \<le> 9999\<close>, so that the year prints in four
  digits, and every other field below 100.
\<close>

record datetime =
  year :: nat
  month :: nat
  day :: nat
  hour :: nat
  minute :: nat
  second :: nat
  microsecond :: nat

definition digit :: "nat \<Rightarrow> char" where
  "digit n = ''0123456789'' ! (n mod 10)"

definition digits2 :: "nat \<Rightarrow> string" where
  "digits2 n = [digit (n div 10), digit n]"

definition digits4 :: "nat \<Rightarrow> string" where
  "digits4 n = [digit (n div 1000), digit (n div 100), digit (n div 10), digit n]"

text \<open>
  \<^verbatim>\<open>isoformat(timespec="seconds")\<close> of an aware datetime in UTC: the date, \<open>T\<close>, the time
  to the second, and the UTC offset \<open>+00:00\<close>.
\<close>

definition isoformat_seconds :: "datetime \<Rightarrow> string" where
  "isoformat_seconds dt =
     digits4 (year dt) @ ''-'' @ digits2 (month dt) @ ''-'' @ digits2 (day dt) @ ''T'' @
     digits2 (hour dt) @ '':'' @ digits2 (minute dt) @ '':'' @ digits2 (second dt) @ ''+00:00''"

definition health_check :: "datetime \<Rightarrow> HealthCheckResponse" where
  "health_check now =
     \<lparr>health_status = ''healthy'',
      timestamp = isoformat_seconds now @ ''Z'',
      service = PROJECT_NAME\<rparr>"

text \<open>
  The format the response model documents for the timestamp
  (\<^verbatim>\<open>example="2023-10-27T10:00:00Z"\<close>): ISO 8601 to the second with the designator \<open>Z\<close>,
  \<^verbatim>\<open>YYYY-MM-DDTHH:MM:SSZ\<close>.
\<close>

definition is_digit :: "char \<Rightarrow> bool" where
  "is_digit c = (c \<in> set ''0123456789'')"

definition iso8601_seconds_Z :: "string \<Rightarrow> bool" where
  "iso8601_seconds_Z s =
     (length s = 20 \<and>
      list_all is_digit (take 4 s) \<and> s ! 4 = CHR ''-'' \<and>
      list_all is_digit (take 2 (drop 5 s)) \<and> s ! 7 = CHR ''-'' \<and>
      list_all is_digit (take 2 (drop 8 s)) \<and> s ! 10 = CHR ''T'' \<and>
      list_all is_digit (take 2 (drop 11 s)) \<and> s ! 13 = CHR '':'' \<and>
      list_all is_digit (take 2 (drop 14 s)) \<and> s ! 16 = CHR '':'' \<and>
      list_all is_digit (take 2 (drop 17 s)) \<and> s ! 19 = CHR ''Z'')"

section \<open>Notions of the specification\<close>

text \<open>The arithmetic mean of a list of numbers.\<close>

definition mean :: "rat list \<Rightarrow> rat" where
  "mean xs = sum_list xs / of_nat (length xs)"





text \<open>
  The magnitude of the integers of a record: the sum of \<open>\<bar>n\<bar>\<close> over its values that are
  ints (a bool counts as 1 or 0). An item is within the range of a float when this sum
  is below \<open>DBL_LIMIT\<close>; then no integer that the mean converts or divides is too large.
\<close>

fun num_magnitude :: "pynum \<Rightarrow> int" where
  "num_magnitude (NInt n) = \<bar>n\<bar>"
| "num_magnitude (NFloat x) = 0"

definition int_magnitude :: "pyval \<Rightarrow> int" where
  "int_magnitude v = (case as_number v of Some n \<Rightarrow> num_magnitude n | None \<Rightarrow> 0)"

definition record_magnitude :: "pydict \<Rightarrow> int" where
  "record_magnitude d = sum_list (map (\<lambda>p. int_magnitude (snd p)) d)"

definition in_float_range :: "int \<Rightarrow> pyval \<Rightarrow> bool" where
  "in_float_range factor item =
     (case item of PDict d \<Rightarrow> factor * record_magnitude d < DBL_LIMIT | _ \<Rightarrow> True)"

section \<open>Evaluation on concrete inputs\<close>

text \<open>Quotients of small integers and their nearest doubles.\<close>

lemma round_double_examples:
  "round_double 1 = Finite 1"
  "round_double (1 / 2) = Finite (1 / 2)"
  "round_double (3 / 2) = Finite (3 / 2)"
  "round_double 150 = Finite 150"
  "round_double (- (2 / 3)) = Finite (- (6004799503160661 / 9007199254740992))"
  by code_simp+

lemmas pipeline_eval =
  preprocess_item_def processed_key_def processed_value_def predict_item_def
  numeric_values_def py_sum_def float_of_int_def DBL_LIMIT_def round_double_examples

lemmas range_eval =
  in_float_range_def record_magnitude_def int_magnitude_def

section \<open>The preprocess stage\<close>

lemma inj_processed_key: "inj processed_key"
  by (simp add: inj_on_def processed_key_def)

lemma dict_setitem_fresh:
  "k \<notin> fst ` set d \<Longrightarrow> dict_setitem d k v = d @ [(k, v)]"
  by (induction d) auto

text \<open>Without a collision of keys the comprehension stores one pair per pair, in order.\<close>

lemma dict_comprehension_distinct:
  "distinct (map fst acc @ map (\<lambda>p. processed_key (fst p)) items) \<Longrightarrow>
   dict_comprehension items acc =
     acc @ map (\<lambda>p. (processed_key (fst p), processed_value (snd p))) items"
proof (induction items arbitrary: acc)
  case Nil
  then show ?case by simp
next
  case (Cons p items)
  obtain k v where p: "p = (k, v)" by (cases p)
  from Cons.prems p have fresh: "processed_key k \<notin> fst ` set acc"
    by auto
  from Cons.prems p
  have "distinct (map fst (acc @ [(processed_key k, processed_value v)]) @
          map (\<lambda>p. processed_key (fst p)) items)"
    by auto
  from Cons.IH [OF this] fresh p show ?case
    by (simp add: dict_setitem_fresh)
qed

lemma dict_comprehension_record:
  assumes "distinct (map fst d)"
  shows "dict_comprehension d [] =
           map (\<lambda>p. (processed_key (fst p), processed_value (snd p))) d"
proof -
  have "distinct (map processed_key (map fst d))"
    using assms inj_processed_key by (simp add: distinct_map inj_on_def)
  then have "distinct (map fst ([] :: pydict) @ map (\<lambda>p. processed_key (fst p)) d)"
    by (simp add: comp_def)
  from dict_comprehension_distinct [OF this] show ?thesis by simp
qed

lemma preprocess_map: "MockPreprocessor_preprocess data = map preprocess_item data"
  by (induction data) simp_all

lemma processed_value_cases:
  "processed_value v =
     (case v of
        PBool b \<Rightarrow> PInt (if b then 10 else 0)
      | PInt n \<Rightarrow> PInt (n * 10)
      | PFloat x \<Rightarrow> PFloat (float_mul10 x)
      | _ \<Rightarrow> v)"
  by (cases v) (simp_all add: processed_value_def)

lemma map_of_processed:
  assumes "distinct (map fst d)" and "(k, v) \<in> set d"
  shows "map_of (map (\<lambda>p. (processed_key (fst p), processed_value (snd p))) d)
           (processed_key k) = Some (processed_value v)"
proof -
  let ?d' = "map (\<lambda>p. (processed_key (fst p), processed_value (snd p))) d"
  have "distinct (map fst ?d')"
    using assms(1) inj_processed_key by (simp add: distinct_map inj_on_def comp_def)
  moreover have "(processed_key k, processed_value v) \<in> set ?d'"
    using assms(2) by force
  ultimately show ?thesis by (rule map_of_is_SomeI)
qed

text \<open>
  The product of a float and 10 is rounded as a double is: \<^verbatim>\<open>0.1 * 10\<close> is \<^verbatim>\<open>1.0\<close>,
  and the largest double times 10 is \<^verbatim>\<open>inf\<close>.
\<close>

lemma float_mul10_examples:
  "float_mul10 (Finite (3602879701896397 / 36028797018963968)) = Finite 1"
  "float_mul10 (Finite (of_int (2 ^ 1024 - 2 ^ 971))) = PosInf"
  by code_simp+

text \<open>
  C2, as amended. For every record with its keys held once, at any place of the input
  list, and every pair \<open>(k, v)\<close> of it, the preprocess stage emits the field
  \<open>processed_k\<close>; its value is \<open>v\<close> times 10 when \<open>v\<close> is an int, the float product of
  \<open>v\<close> and 10 (the nearest double, an infinity beyond the doubles) when \<open>v\<close> is a float,
  the int 10 or 0 when \<open>v\<close> is the boolean true or false, and \<open>v\<close> itself when \<open>v\<close> is a
  string, null, a list or a dict.
\<close>

theorem preprocess_emits_field:
  assumes "i < length data" and "data ! i = PDict d" and "distinct (map fst d)"
    and "(k, v) \<in> set d"
  shows "\<exists>d'. MockPreprocessor_preprocess data ! i = PDict d' \<and>
           map_of d' (''processed_'' @ k) =
             Some (case v of
                     PBool b \<Rightarrow> PInt (if b then 10 else 0)
                   | PInt n \<Rightarrow> PInt (n * 10)
                   | PFloat x \<Rightarrow> PFloat (float_mul10 x)
                   | _ \<Rightarrow> v)"
proof -
  let ?d' = "map (\<lambda>p. (processed_key (fst p), processed_value (snd p))) d"
  have "MockPreprocessor_preprocess data ! i = PDict ?d'"
    using assms(1-3) by (simp add: preprocess_map preprocess_item_def dict_comprehension_record)
  moreover have "map_of ?d' (''processed_'' @ k) = Some (processed_value v)"
    using map_of_processed [OF assms(3,4)] by (simp add: processed_key_def)
  ultimately show ?thesis
    by (simp add: processed_value_cases)
qed

text \<open>The record \<^verbatim>\<open>{"a": 2, "b": "x", "c": 0.1}\<close> and its fields \<open>a\<close> and \<open>c\<close>.\<close>

theorem preprocess_emits_field_witness:
  "0 < length [PDict [(''a'', PInt 2), (''b'', PStr ''x''),
                      (''c'', PFloat (Finite (3602879701896397 / 36028797018963968)))]] \<and>
   distinct (map fst [(''a'', PInt 2), (''b'', PStr ''x''),
                      (''c'', PFloat (Finite (3602879701896397 / 36028797018963968)))]) \<and>
   (''a'', PInt 2) \<in> set [(''a'', PInt 2), (''b'', PStr ''x''),
                      (''c'', PFloat (Finite (3602879701896397 / 36028797018963968)))] \<and>
   (\<exists>d'. MockPreprocessor_preprocess
           [PDict [(''a'', PInt 2), (''b'', PStr ''x''),
                   (''c'', PFloat (Finite (3602879701896397 / 36028797018963968)))]] ! 0 = PDict d' \<and>
      map_of d' ''processed_a'' = Some (PInt 20)) \<and>
   (\<exists>d'. MockPreprocessor_preprocess
           [PDict [(''a'', PInt 2), (''b'', PStr ''x''),
                   (''c'', PFloat (Finite (3602879701896397 / 36028797018963968)))]] ! 0 = PDict d' \<and>
      map_of d' ''processed_c'' = Some (PFloat (Finite 1)))"
  using
    preprocess_emits_field
      [of 0 "[PDict [(''a'', PInt 2), (''b'', PStr ''x''),
                     (''c'', PFloat (Finite (3602879701896397 / 36028797018963968)))]]"
        "[(''a'', PInt 2), (''b'', PStr ''x''),
          (''c'', PFloat (Finite (3602879701896397 / 36028797018963968)))]"
        "''a''" "PInt 2"]
    preprocess_emits_field
      [of 0 "[PDict [(''a'', PInt 2), (''b'', PStr ''x''),
                     (''c'', PFloat (Finite (3602879701896397 / 36028797018963968)))]]"
        "[(''a'', PInt 2), (''b'', PStr ''x''),
          (''c'', PFloat (Finite (3602879701896397 / 36028797018963968)))]"
        "''c''" "PFloat (Finite (3602879701896397 / 36028797018963968))"]
  by (simp add: float_mul10_examples del: float_mul10.simps)

text \<open>
  C2 as stated fails on a boolean: the record \<^verbatim>\<open>{"a": true}\<close> comes out as
  \<^verbatim>\<open>{"processed_a": 10}\<close>, not with the value unchanged.
\<close>

theorem preprocess_scales_boolean:
  "MockPreprocessor_preprocess [PDict [(''a'', PBool True)]] =
     [PDict [(''processed_a'', PInt 10)]] \<and>
   MockPreprocessor_preprocess [PDict [(''a'', PBool True)]] \<noteq>
     [PDict [(''processed_a'', PBool True)]]"
  by (simp add: pipeline_eval)

text \<open>
  C10. For every record with its keys held once, at any place of the input list, the
  preprocess stage gives a record with as many fields: its keys are the prefixed keys
  of the input in order, they do not collide, and the renaming is injective.
\<close>

theorem preprocess_preserves_fields:
  assumes "i < length data" and "data ! i = PDict d" and "distinct (map fst d)"
  shows "\<exists>d'. MockPreprocessor_preprocess data ! i = PDict d' \<and>
           length d' = length d \<and> distinct (map fst d') \<and>
           map fst d' = map (\<lambda>k. ''processed_'' @ k) (map fst d) \<and>
           inj (\<lambda>k. ''processed_'' @ k)"
proof -
  let ?d' = "map (\<lambda>p. (processed_key (fst p), processed_value (snd p))) d"
  have key: "processed_key = (\<lambda>k. ''processed_'' @ k)"
    by (simp add: fun_eq_iff processed_key_def)
  have "MockPreprocessor_preprocess data ! i = PDict ?d'"
    using assms by (simp add: preprocess_map preprocess_item_def dict_comprehension_record)
  moreover have "map fst ?d' = map processed_key (map fst d)"
    by simp
  moreover have "distinct (map processed_key (map fst d))"
    using assms(3) inj_processed_key by (simp add: distinct_map inj_on_def)
  ultimately have "MockPreprocessor_preprocess data ! i = PDict ?d' \<and>
      length ?d' = length d \<and> distinct (map fst ?d') \<and>
      map fst ?d' = map processed_key (map fst d) \<and> inj processed_key"
    using inj_processed_key by (simp add: comp_def)
  then show ?thesis
    unfolding key by blast
qed

theorem preprocess_preserves_fields_witness:
  "0 < length [PDict [(''feature1'', PInt 10), (''feature2'', PInt 20)]] \<and>
   distinct (map fst [(''feature1'', PInt 10), (''feature2'', PInt 20)]) \<and>
   (\<exists>d'. MockPreprocessor_preprocess [PDict [(''feature1'', PInt 10), (''feature2'', PInt 20)]] ! 0 =
        PDict d' \<and>
      length d' = 2 \<and> map fst d' = [''processed_feature1'', ''processed_feature2''])"
  using preprocess_preserves_fields
    [of 0 "[PDict [(''feature1'', PInt 10), (''feature2'', PInt 20)]]"
      "[(''feature1'', PInt 10), (''feature2'', PInt 20)]"]
  by (auto simp: numeral_2_eq_2)

section \<open>The predict stage\<close>

subsection \<open>The structure of the loop\<close>

lemma predict_Inr_iff:
  "MockModel_predict data = Inr scores \<longleftrightarrow>
     length scores = length data \<and>
     (\<forall>i<length data. predict_item (data ! i) = Inr (scores ! i))"
proof (induction data arbitrary: scores)
  case Nil
  then show ?case by auto
next
  case (Cons item data)
  show ?case
  proof (cases scores)
    case Nil
    then show ?thesis by (auto split: sum.splits)
  next
    case (Cons p ps)
    have "(\<forall>i<length (item # data). predict_item ((item # data) ! i) = Inr ((p # ps) ! i)) \<longleftrightarrow>
        predict_item item = Inr p \<and> (\<forall>i<length data. predict_item (data ! i) = Inr (ps ! i))"
      by (auto simp: nth_Cons split: nat.splits)
    with Cons.IH [of ps] Cons show ?thesis
      by (auto split: sum.splits)
  qed
qed

lemma predict_Inl:
  "MockModel_predict data = Inl e \<Longrightarrow> \<exists>item \<in> set data. predict_item item = Inl e"
  by (induction data) (auto split: sum.splits)

lemma predict_returns:
  assumes "\<And>item. item \<in> set data \<Longrightarrow> \<exists>p. predict_item item = Inr p"
  shows "\<exists>scores. MockModel_predict data = Inr scores \<and> length scores = length data"
proof (cases "MockModel_predict data")
  case (Inl e)
  from predict_Inl [OF this] assms show ?thesis by fastforce
next
  case (Inr scores)
  then show ?thesis using predict_Inr_iff [of data scores] by blast
qed

subsection \<open>No division by zero\<close>

lemma num_add_no_zero_division: "num_add a b \<noteq> Inl ZeroDivisionError"
  by (cases a; cases b) (simp_all add: float_of_int_def)

lemma sum_from_no_zero_division: "sum_from acc ns \<noteq> Inl ZeroDivisionError"
proof (induction ns arbitrary: acc)
  case Nil
  then show ?case by simp
next
  case (Cons n ns)
  then show ?case
    using num_add_no_zero_division [of acc n] by (cases "num_add acc n") auto
qed

lemma truediv_len_no_zero_division: "0 < n \<Longrightarrow> truediv_len s n \<noteq> Inl ZeroDivisionError"
  by (cases s) simp_all

lemma predict_item_no_zero_division: "predict_item item \<noteq> Inl ZeroDivisionError"
proof (cases item)
  case (PDict d)
  show ?thesis
  proof (cases "numeric_values d = []")
    case True
    with PDict show ?thesis by (simp add: predict_item_def)
  next
    case False
    then have len: "0 < length (numeric_values d)" by simp
    show ?thesis
    proof (cases "py_sum (numeric_values d)")
      case (Inl e)
      then have "e \<noteq> ZeroDivisionError"
        using sum_from_no_zero_division [of "NInt 0" "numeric_values d"]
        by (auto simp: py_sum_def)
      with Inl PDict False show ?thesis by (simp add: predict_item_def)
    next
      case (Inr s)
      with PDict False truediv_len_no_zero_division [OF len, of s] show ?thesis
        by (simp add: predict_item_def)
    qed
  qed
qed (simp_all add: predict_item_def)

subsection \<open>Integers within the range of a float\<close>

lemma num_magnitude_nonneg: "0 \<le> num_magnitude n"
  by (cases n) simp_all

lemma sum_magnitude_nonneg: "0 \<le> sum_list (map num_magnitude ns)"
  by (induction ns) (simp_all add: num_magnitude_nonneg)

lemma num_add_in_range:
  assumes "num_magnitude a + num_magnitude b < DBL_LIMIT"
  shows "\<exists>c. num_add a b = Inr c \<and>
           num_magnitude c \<le> num_magnitude a + num_magnitude b"
  using assms by (cases a; cases b) (auto simp: float_of_int_def)

lemma sum_from_in_range:
  "num_magnitude acc + sum_list (map num_magnitude ns) < DBL_LIMIT \<Longrightarrow>
   \<exists>s. sum_from acc ns = Inr s \<and>
       num_magnitude s \<le> num_magnitude acc + sum_list (map num_magnitude ns)"
proof (induction ns arbitrary: acc)
  case Nil
  then show ?case by simp
next
  case (Cons n ns)
  have rest: "0 \<le> sum_list (map num_magnitude ns)"
    by (rule sum_magnitude_nonneg)
  with Cons.prems have "num_magnitude acc + num_magnitude n < DBL_LIMIT"
    by simp
  from num_add_in_range [OF this] obtain c where c: "num_add acc n = Inr c"
      "num_magnitude c \<le> num_magnitude acc + num_magnitude n"
    by blast
  with Cons.prems have "num_magnitude c + sum_list (map num_magnitude ns) < DBL_LIMIT"
    by simp
  from Cons.IH [OF this] obtain s where s: "sum_from c ns = Inr s"
      "num_magnitude s \<le> num_magnitude c + sum_list (map num_magnitude ns)"
    by blast
  with c show ?case by simp
qed

lemma truediv_len_in_range:
  assumes "0 < n" and "num_magnitude s < DBL_LIMIT"
  shows "\<exists>p. truediv_len s n = Inr p"
proof (cases s)
  case (NInt a)
  have "\<bar>of_int a / of_nat n :: rat\<bar> \<le> \<bar>of_int a\<bar>"
    using assms(1) by (simp add: divide_le_eq mult_le_cancel_left1)
  also have "\<dots> < of_int DBL_LIMIT"
    using assms(2) NInt by (metis num_magnitude.simps(1) of_int_abs of_int_less_iff)
  finally show ?thesis
    using assms(1) NInt by simp
next
  case (NFloat x)
  then show ?thesis using assms(1) by simp
qed

lemma magnitude_numeric_values:
  "sum_list (map num_magnitude (numeric_values d)) = record_magnitude d"
proof (induction d)
  case Nil
  then show ?case by (simp add: numeric_values_def record_magnitude_def)
next
  case (Cons p d)
  then show ?case
    by (cases "snd p")
      (simp_all add: numeric_values_def record_magnitude_def int_magnitude_def)
qed

lemma predict_item_in_range:
  assumes "in_float_range 1 item"
  shows "\<exists>p. predict_item item = Inr p"
proof (cases item)
  case (PDict d)
  show ?thesis
  proof (cases "numeric_values d = []")
    case True
    with PDict show ?thesis by (simp add: predict_item_def)
  next
    case False
    then have len: "0 < length (numeric_values d)" by simp
    have "num_magnitude (NInt 0) + sum_list (map num_magnitude (numeric_values d)) < DBL_LIMIT"
      using assms PDict by (simp add: in_float_range_def magnitude_numeric_values)
    from sum_from_in_range [OF this] obtain s where s: "py_sum (numeric_values d) = Inr s"
        "num_magnitude s < DBL_LIMIT"
      using assms PDict
      by (auto simp: py_sum_def in_float_range_def magnitude_numeric_values)
    from truediv_len_in_range [OF len s(2)] s(1) False PDict show ?thesis
      by (simp add: predict_item_def)
  qed
qed (simp_all add: predict_item_def)

lemma predict_returns_in_range:
  assumes "list_all (in_float_range 1) data"
  shows "\<exists>scores. MockModel_predict data = Inr scores \<and> length scores = length data"
proof -
  have "\<exists>p. predict_item item = Inr p" if "item \<in> set data" for item
    using that assms predict_item_in_range [of item] by (auto simp: list_all_iff)
  from predict_returns [OF this] show ?thesis .
qed

subsection \<open>The magnitude of a preprocessed record\<close>

lemma int_magnitude_nonneg: "0 \<le> int_magnitude v"
  by (simp add: int_magnitude_def num_magnitude_nonneg split: option.split)

lemma int_magnitude_processed: "int_magnitude (processed_value v) = 10 * int_magnitude v"
  by (cases v) (simp_all add: int_magnitude_def processed_value_def abs_mult)

lemma record_magnitude_setitem:
  "record_magnitude (dict_setitem d k v) \<le> record_magnitude d + int_magnitude v"
proof (induction d)
  case Nil
  then show ?case by (simp add: record_magnitude_def)
next
  case (Cons p d)
  obtain k' v' where p: "p = (k', v')" by (cases p)
  from Cons p int_magnitude_nonneg [of v'] show ?case
    by (simp add: record_magnitude_def)
qed

lemma record_magnitude_comprehension:
  "record_magnitude (dict_comprehension items acc) \<le>
     record_magnitude acc + 10 * record_magnitude items"
proof (induction items arbitrary: acc)
  case Nil
  then show ?case by (simp add: record_magnitude_def)
next
  case (Cons p items)
  obtain k v where p: "p = (k, v)" by (cases p)
  let ?acc = "dict_setitem acc (processed_key k) (processed_value v)"
  have "record_magnitude (dict_comprehension items ?acc) \<le>
      record_magnitude ?acc + 10 * record_magnitude items"
    by (rule Cons.IH)
  also have "record_magnitude ?acc \<le> record_magnitude acc + 10 * int_magnitude v"
    using record_magnitude_setitem [of acc "processed_key k" "processed_value v"]
    by (simp add: int_magnitude_processed)
  finally show ?case using p by (simp add: record_magnitude_def)
qed

lemma preprocess_item_in_range:
  assumes "in_float_range 10 item"
  shows "in_float_range 1 (preprocess_item item)"
proof (cases item)
  case (PDict d)
  have "record_magnitude (dict_comprehension d []) \<le> 10 * record_magnitude d"
    using record_magnitude_comprehension [of d "[]"] by (simp add: record_magnitude_def)
  with assms PDict show ?thesis
    by (simp add: in_float_range_def preprocess_item_def)
qed (simp_all add: in_float_range_def preprocess_item_def)

subsection \<open>The score of a record of integers\<close>





text \<open>The mean of the integers -3, 0 and 1 is scored as the double nearest to -2/3.\<close>

lemma predict_rounds_mean:
  "MockModel_predict [PDict [(''a'', PInt (- 3)), (''b'', PInt 0), (''c'', PInt 1)]] =
     Inr [Finite (- (6004799503160661 / 9007199254740992))]"
  by (simp add: pipeline_eval)

text \<open>
  Two records of floats: \<^verbatim>\<open>{"x": 0.5}\<close> is scored 0.5, and the sum of the largest double
  with itself is \<^verbatim>\<open>inf\<close>, and so is the score.
\<close>

lemma predict_float_examples:
  "MockModel_predict [PDict [(''x'', PFloat (Finite (1 / 2)))]] = Inr [Finite (1 / 2)]"
  "MockModel_predict
     [PDict [(''a'', PFloat (Finite (of_int (2 ^ 1024 - 2 ^ 971)))),
             (''b'', PFloat (Finite (of_int (2 ^ 1024 - 2 ^ 971))))]] = Inr [PosInf]"
  by code_simp+




text \<open>
  C9, as amended. The predict stage never divides by zero: the division is performed on
  a non-empty list of numeric values only. It returns one score for every item of the
  input whenever every record is within the range of a float.
\<close>

theorem predict_no_zero_division:
  "MockModel_predict data \<noteq> Inl ZeroDivisionError \<and>
   (list_all (in_float_range 1) data \<longrightarrow>
      (\<exists>scores. MockModel_predict data = Inr scores \<and> length scores = length data))"
proof -
  have "MockModel_predict data \<noteq> Inl ZeroDivisionError"
    using predict_Inl [of data ZeroDivisionError] predict_item_no_zero_division by blast
  with predict_returns_in_range [of data] show ?thesis by blast
qed

theorem predict_no_zero_division_witness:
  "list_all (in_float_range 1) [PDict [(''a'', PInt 20)], PDict [], PStr ''x''] \<and>
   (\<exists>scores. MockModel_predict [PDict [(''a'', PInt 20)], PDict [], PStr ''x''] = Inr scores \<and>
      length scores = 3)"
  using predict_no_zero_division [of "[PDict [(''a'', PInt 20)], PDict [], PStr ''x'']"]
  by (simp add: range_eval DBL_LIMIT_def numeral_3_eq_3)

text \<open>
  C9 as stated fails on an integer beyond the range of a float: for the record
  \<^verbatim>\<open>{"a": 10 ** 400}\<close> the division raises \<^verbatim>\<open>OverflowError\<close> and no score is produced.
\<close>

theorem predict_overflow:
  "MockModel_predict [PDict [(''a'', PInt (10 ^ 400))]] =
     Inl (OverflowError ''integer division result too large for a float'')"
  by (simp add: pipeline_eval)

section \<open>The pipeline\<close>

text \<open>
  C6, as amended. Whenever the pipeline \<^verbatim>\<open>predict(preprocess(records))\<close> returns, it
  returns exactly one score per input record, in input order: the score at a place is
  the score of the pipeline on the record at that place alone. It returns whenever ten
  times the magnitude of the integers of every record is within the range of a float,
  and on the empty list it returns the empty list.
\<close>

theorem pipeline_one_score_per_record:
  "(\<forall>scores. MockModel_predict (MockPreprocessor_preprocess data) = Inr scores \<longrightarrow>
      length scores = length data \<and>
      (\<forall>i<length data.
         MockModel_predict (MockPreprocessor_preprocess [data ! i]) = Inr [scores ! i])) \<and>
   (list_all (in_float_range 10) data \<longrightarrow>
      (\<exists>scores. MockModel_predict (MockPreprocessor_preprocess data) = Inr scores)) \<and>
   MockModel_predict (MockPreprocessor_preprocess []) = Inr []"
proof (intro conjI allI impI)
  fix scores
  assume "MockModel_predict (MockPreprocessor_preprocess data) = Inr scores"
  then have s: "length scores = length data"
      "\<forall>i<length data. predict_item (preprocess_item (data ! i)) = Inr (scores ! i)"
    by (simp_all add: predict_Inr_iff preprocess_map)
  show "length scores = length data" by (rule s(1))
  fix i
  assume "i < length data"
  with s(2) show "MockModel_predict (MockPreprocessor_preprocess [data ! i]) = Inr [scores ! i]"
    by simp
next
  assume range: "list_all (in_float_range 10) data"
  have "list_all (in_float_range 1) (MockPreprocessor_preprocess data)"
    using range by (simp add: preprocess_map list_all_iff preprocess_item_in_range)
  from predict_returns_in_range [OF this]
  show "\<exists>scores. MockModel_predict (MockPreprocessor_preprocess data) = Inr scores"
    by blast
next
  show "MockModel_predict (MockPreprocessor_preprocess []) = Inr []" by simp
qed

text \<open>Two records and their scores 150.0 and 0.5, in the order of the input.\<close>

theorem pipeline_one_score_per_record_witness:
  "list_all (in_float_range 10)
     [PDict [(''feature1'', PInt 10), (''feature2'', PInt 20)], PDict [(''name'', PStr ''x'')]] \<and>
   MockModel_predict (MockPreprocessor_preprocess
     [PDict [(''feature1'', PInt 10), (''feature2'', PInt 20)], PDict [(''name'', PStr ''x'')]]) =
     Inr [Finite 150, Finite (1 / 2)] \<and>
   length [Finite 150, Finite (1 / 2)] = 2 \<and>
   MockModel_predict (MockPreprocessor_preprocess
     [PDict [(''feature1'', PInt 10), (''feature2'', PInt 20)]]) = Inr [Finite 150] \<and>
   MockModel_predict (MockPreprocessor_preprocess [PDict [(''name'', PStr ''x'')]]) =
     Inr [Finite (1 / 2)]"
  using pipeline_one_score_per_record
    [of "[PDict [(''feature1'', PInt 10), (''feature2'', PInt 20)], PDict [(''name'', PStr ''x'')]]"]
  by (simp add: range_eval pipeline_eval)

text \<open>
  C6 as stated fails on an integer beyond the range of a float: for the record
  \<^verbatim>\<open>{"n": 10 ** 400}\<close> the pipeline raises \<^verbatim>\<open>OverflowError\<close> and returns no score.
\<close>

theorem pipeline_overflow:
  "MockModel_predict (MockPreprocessor_preprocess [PDict [(''n'', PInt (10 ^ 400))]]) =
     Inl (OverflowError ''integer division result too large for a float'')"
  by (simp add: pipeline_eval)

section \<open>The prediction endpoint\<close>

text \<open>
  C1. With the AI feature enabled and initialized, \<^verbatim>\<open>POST /predict\<close> with the body
  \<^verbatim>\<open>{"data": [{"feature1": 10, "feature2": 20}]}\<close> returns the predictions \<^verbatim>\<open>[150.0]\<close>
  with the status \<^verbatim>\<open>"success"\<close>: the preprocess stage scales the two fields to 100 and
  200, and the predict stage returns their mean.
\<close>

theorem predict_endpoint_example:
  "MockPreprocessor_preprocess [PDict [(''feature1'', PInt 10), (''feature2'', PInt 20)]] =
     [PDict [(''processed_feature1'', PInt 100), (''processed_feature2'', PInt 200)]] \<and>
   MockModel_predict
     [PDict [(''processed_feature1'', PInt 100), (''processed_feature2'', PInt 200)]] =
     Inr [Finite (mean [100, 200])] \<and>
   post_predict (initialize True Initialized)
     (PDict [(''data'', PList [PDict [(''feature1'', PInt 10), (''feature2'', PInt 20)]])]) =
     Inr \<lparr>predictions = [Finite 150], status = ''success''\<rparr>"
  by (simp add: post_predict_def initialize_def PredictionInput_def predict_def pipeline_eval
      mean_def)

text \<open>An exception of the pipeline is answered 500 with its description.\<close>

lemma predict_endpoint_overflow:
  "post_predict (initialize True Initialized)
     (PDict [(''data'', PList [PDict [(''n'', PInt (10 ^ 400))]])]) =
     Inl (HTTPException 500
           ''An error occurred during AI prediction: integer division result too large for a float''
           [])"
  by (simp add: post_predict_def initialize_def PredictionInput_def predict_def pipeline_eval)

text \<open>
  C7. When the AI feature is disabled in the configuration, every \<^verbatim>\<open>POST /predict\<close>
  fails with 403 Forbidden, whatever the body.
\<close>

theorem predict_disabled_forbidden:
  "post_predict (initialize False outcome) body =
     Inl (HTTPException 403 ''AI features are disabled for this service.'' []) \<and>
   response_status (post_predict (initialize False outcome) body) = 403"
  by (simp add: post_predict_def initialize_def predict_disabled_def response_status_def)

text \<open>
  C8, as amended. When the AI feature is enabled in the configuration and the
  initialization of the model or of the preprocessor fails, the initialization clears
  \<^verbatim>\<open>AI_ENABLED\<close> and every \<^verbatim>\<open>POST /predict\<close> fails with 403 Forbidden. The handler of the
  enabled route answers 503 when it finds the model or the preprocessor unset, and no
  initialization leaves \<^verbatim>\<open>AI_ENABLED\<close> set with one of them unset.
\<close>

theorem failed_initialization_forbidden:
  "(outcome \<noteq> Initialized \<longrightarrow>
      post_predict (initialize True outcome) body =
        Inl (HTTPException 403 ''AI features are disabled for this service.'' [])) \<and>
   (ml_model g = None \<or> preprocessor g = None \<longrightarrow>
      predict g data = Inl (HTTPException 503 ''AI models are not loaded or available.'' [])) \<and>
   (AI_ENABLED (initialize configured outcome') \<longrightarrow>
      ml_model (initialize configured outcome') \<noteq> None \<and>
      preprocessor (initialize configured outcome') \<noteq> None)"
  by (cases outcome; cases outcome')
    (simp_all add: post_predict_def initialize_def predict_disabled_def predict_def)

theorem failed_initialization_forbidden_witness:
  "PreprocessorRaised \<noteq> Initialized \<and>
   post_predict (initialize True PreprocessorRaised) (PDict [(''data'', PList [])]) =
     Inl (HTTPException 403 ''AI features are disabled for this service.'' []) \<and>
   ml_model \<lparr>AI_ENABLED = True, ml_model = None, preprocessor = Some MockPreprocessor\<rparr> = None \<and>
   predict \<lparr>AI_ENABLED = True, ml_model = None, preprocessor = Some MockPreprocessor\<rparr> [] =
     Inl (HTTPException 503 ''AI models are not loaded or available.'' []) \<and>
   AI_ENABLED (initialize True Initialized) \<and>
   ml_model (initialize True Initialized) = Some MockModel \<and>
   preprocessor (initialize True Initialized) = Some MockPreprocessor"
  using failed_initialization_forbidden
    [of PreprocessorRaised "PDict [(''data'', PList [])]"
      "\<lparr>AI_ENABLED = True, ml_model = None, preprocessor = Some MockPreprocessor\<rparr>" "[]"
      True Initialized]
  by (simp add: initialize_def)

text \<open>
  C8 as stated fails: with the feature enabled in the configuration and the load of the
  model raising, \<^verbatim>\<open>POST /predict\<close> is answered 403, not 503.
\<close>

theorem failed_initialization_not_503:
  "post_predict (initialize True ModelRaised) (PDict [(''data'', PList [])]) =
     Inl (HTTPException 403 ''AI features are disabled for this service.'' []) \<and>
   response_status (post_predict (initialize True ModelRaised) (PDict [(''data'', PList [])])) \<noteq>
     503"
  by (simp add: post_predict_def initialize_def predict_disabled_def response_status_def)

section \<open>The admin gate\<close>

text \<open>\<^verbatim>\<open>authenticate_admin\<close> accepts the configured secret and nothing else.\<close>

lemma authenticate_admin_iff:
  "authenticate_admin token =
     (if token = Some FAKE_ADMIN_TOKEN then Inr True else Inl unauthorized)"
  by (cases token) (auto simp: FAKE_ADMIN_TOKEN_def)

lemma unauthorized_challenge:
  "status_code unauthorized = 401 \<and>
   response_headers unauthorized = [(''WWW-Authenticate'', ''Bearer'')]"
  by (simp add: unauthorized_def)

text \<open>
  Had the lambda declared its parameter as the request, the gate would let the handler
  run on the secret and answer 401 with the challenge on anything else.
\<close>

lemma gate_on_request:
  "gated RequestAnnotation req handler =
     (if headers_get (headers req) ''X-Admin-Token'' = Some FAKE_ADMIN_TOKEN then Inr handler
      else Inl unauthorized)"
  by (simp add: gated_def depends_authenticate_admin_def authenticate_admin_iff)

lemma gate_on_request_example:
  "headers_get [(''accept'', ''*/*''), (''x-admin-token'', ''supersecretadmintoken'')]
     ''X-Admin-Token'' = Some ''supersecretadmintoken'' \<and>
   gated RequestAnnotation
     \<lparr>headers = [(''x-admin-token'', ''supersecretadmintoken'')], query_params = []\<rparr>
     admin_dashboard = Inr admin_dashboard \<and>
   gated RequestAnnotation
     \<lparr>headers = [(''X-Admin-Token'', ''wrong'')], query_params = []\<rparr>
     admin_dashboard = Inl unauthorized"
  by (simp add: gated_def depends_authenticate_admin_def headers_get_def ascii_lower_def
      FAKE_ADMIN_TOKEN_def)

text \<open>
  As the lambda is declared, no request reaches \<^verbatim>\<open>authenticate_admin\<close>: the route
  answers 422 or 500, never 401, and the handler never runs.
\<close>

lemma gate_as_declared:
  "\<exists>e. get_admin_dashboard req = Inl e \<and> (status_code e = 422 \<or> status_code e = 500)"
  by (auto simp: get_admin_dashboard_def gated_def depends_authenticate_admin_def
      split: option.splits)

text \<open>
  C4. On a request to \<^verbatim>\<open>GET /admin/dashboard\<close> that carries the configured secret in
  \<^verbatim>\<open>X-Admin-Token\<close> the handler does not run: the lambda's parameter \<open>x\<close> is a required
  query parameter, the request has none, and the answer is 422. A request with a wrong
  token is answered 422 as well, not 401; with a query parameter \<open>x\<close> the answer is 500.
\<close>

theorem admin_dashboard_correct_token:
  "get_admin_dashboard
     \<lparr>headers = [(''X-Admin-Token'', ''supersecretadmintoken'')], query_params = []\<rparr> =
     Inl (RequestValidationError ''x'') \<and>
   response_status
     (get_admin_dashboard
        \<lparr>headers = [(''X-Admin-Token'', ''supersecretadmintoken'')], query_params = []\<rparr>) = 422 \<and>
   response_status
     (get_admin_dashboard
        \<lparr>headers = [(''X-Admin-Token'', ''wrong'')], query_params = []\<rparr>) = 422 \<and>
   response_status
     (get_admin_dashboard
        \<lparr>headers = [(''X-Admin-Token'', ''supersecretadmintoken'')],
         query_params = [(''x'', ''1'')]\<rparr>) = 500"
  by (simp add: get_admin_dashboard_def gated_def depends_authenticate_admin_def
      response_status_def)

section \<open>The health check\<close>

text \<open>
  C5. The health check answers with the status \<^verbatim>\<open>"healthy"\<close> and the service name, and
  its timestamp is the UTC time to the second followed by \<open>+00:00Z\<close>: at 10:00:00 on 27
  October 2023 it is \<^verbatim>\<open>2023-10-27T10:00:00+00:00Z\<close>, while the documented
  \<^verbatim>\<open>2023-10-27T10:00:00Z\<close> has the format with the designator \<open>Z\<close>, which no timestamp
  of the health check has.
\<close>

theorem health_check_timestamp:
  "health_check
     \<lparr>year = 2023, month = 10, day = 27, hour = 10, minute = 0, second = 0, microsecond = 0\<rparr> =
     \<lparr>health_status = ''healthy'', timestamp = ''2023-10-27T10:00:00+00:00Z'',
      service = ''Portfolio Website with Blog''\<rparr> \<and>
   iso8601_seconds_Z ''2023-10-27T10:00:00Z'' \<and>
   health_status (health_check now) = ''healthy'' \<and>
   service (health_check now) = PROJECT_NAME \<and>
   \<not> iso8601_seconds_Z (timestamp (health_check now))"
  by (simp add: health_check_def PROJECT_NAME_def isoformat_seconds_def digits2_def digits4_def
      digit_def iso8601_seconds_Z_def is_digit_def)

end
